theory Spec2Isabelle
  imports Main
begin

section \<open>Common data\<close>

text \<open>
  A Go \<^verbatim>\<open>error\<close> value is represented by the text its \<^verbatim>\<open>Error()\<close> method returns;
  a nil error is \<open>None\<close> of \<open>error option\<close>, and a pair \<^verbatim>\<open>(value, err)\<close> is a sum with
  \<open>Inl\<close> for the error.  \<^verbatim>\<open>errors.Wrap(f)\<close> of github.com/pkg/errors puts the
  message in front of the cause, separated by a colon and a blank.
\<close>

type_synonym error = string

definition Wrap :: "error \<Rightarrow> string \<Rightarrow> error" where
  "Wrap err message = message @ '': '' @ err"

text \<open>The status codes of net/http that the handlers write.\<close>

definition StatusOK :: nat where "StatusOK = 200"
definition StatusBadRequest :: nat where "StatusBadRequest = 400"
definition StatusNotFound :: nat where "StatusNotFound = 404"
definition StatusInternalServerError :: nat where "StatusInternalServerError = 500"

text \<open>
  The documents the handlers and the gateway read and write.  Only the fields the modelled
  functions touch are kept; every field is a Go string.
\<close>

record distro =
  d_Id :: string
  d_Arch :: string
  d_WorkDir :: string

record host =
  h_Id :: string
  h_Host :: string
  h_User :: string
  h_Distro :: distro
  h_Status :: string
  h_RunningTask :: string
  h_AgentRevision :: string
  h_Secret :: string

record task =
  t_Id :: string
  t_HostId :: string
  t_DistroId :: string
  t_Secret :: string
  t_Project :: string
  t_Requester :: string

text \<open>\<^verbatim>\<open>apimodels.TaskEndResponse\<close>, with Go's zero values in \<open>taskEndResponse0\<close>.\<close>

record TaskEndResponse =
  Message :: string
  RunNext :: bool
  TaskId :: string
  TaskSecret :: string

definition taskEndResponse0 :: TaskEndResponse where
  "taskEndResponse0 = \<lparr>Message = '''', RunNext = False, TaskId = '''', TaskSecret = ''''\<rparr>"

record TaskEndDetail =
  Status :: string

record ProjectRef =
  Identifier :: string
  DeactivatePrevious :: bool

text \<open>\<^verbatim>\<open>command.RemoteCommand\<close> and \<^verbatim>\<open>command.ScpCommand\<close> as the gateway fills them in.
  The \<^verbatim>\<open>Id\<close> field (a label with a random number) and the two writers, which both point
  to the capped log of the step, are left out.\<close>

record RemoteCommand =
  CmdString :: string
  RemoteHostName :: string
  User :: string
  Options :: "string list"
  Background :: bool

record ScpCommand =
  Source :: string
  Dest :: string
  scp_RemoteHostName :: string
  scp_User :: string
  scp_Options :: "string list"

record SSHInfo =
  Hostname :: string
  Port :: string

datatype level = Info | Notice | Warning | Error

text \<open>
  Every call that leaves the modelled functions (to the document store, the file system,
  the remote shell, the logger, the HTTP response writer) is recorded as an event, in
  program order.  A function of the model returns the events it caused together with its
  result.  Time stamps (\<^verbatim>\<open>time.Now()\<close>, \<^verbatim>\<open>finishTime\<close>) are not recorded.
\<close>

datatype event =
    EvHostFindOne string
  | EvClearRunningTask string string
  | EvUpdateRunningTask string string string
  | EvGoUpdateTaskCost string string
  | EvReadFile string
  | EvFindTaskQueueForDistro string
  | EvDispatchTaskForHost "string list" string
  | EvWriteJSON nat TaskEndResponse
  | EvLog level string
  | EvReadJSON
  | EvHttpError nat string
  | EvLoggedError nat string
  | EvFindOneProjectRef string
  | EvFindProject string
  | EvGetGlobalLock string string
  | EvReleaseGlobalLock string string
  | EvMarkEnd string string bool
  | EvRunTaskFailureTriggers string
  | EvSetActiveState string bool
  | EvUpdateExpectedDuration string
  | EvGetCloudHost string
  | EvGetSSHOptions
  | EvParseSSHInfo string
  | EvRun RemoteCommand int
  | EvStop RemoteCommand
  | EvDistroFindOne string
  | EvRunScp ScpCommand int
  | EvStopScp ScpCommand
  | EvCreateSecret string
  | EvSetAgentRevision string string

section \<open>Strings and paths of the Go standard library\<close>

text \<open>\<^verbatim>\<open>strings.HasPrefix\<close>.\<close>

definition HasPrefix :: "string \<Rightarrow> string \<Rightarrow> bool" where
  "HasPrefix s pre = (take (length pre) s = pre)"

text \<open>\<^verbatim>\<open>strings.TrimSpace\<close> on ASCII text: blank, tab, line feed, vertical tab, form feed
  and carriage return are cut from both ends.\<close>

definition isSpace :: "char \<Rightarrow> bool" where
  "isSpace c = (c \<in> {CHR '' '', CHR 0x09, CHR 0x0A, CHR 0x0B, CHR 0x0C, CHR 0x0D})"

definition TrimSpace :: "string \<Rightarrow> string" where
  "TrimSpace s = rev (dropWhile isSpace (rev (dropWhile isSpace s)))"

text \<open>\<^verbatim>\<open>strings.Split(s, "/")\<close> and \<^verbatim>\<open>strings.Join(elems, "/")\<close>.\<close>

fun split_slash :: "string \<Rightarrow> string list" where
  "split_slash [] = [[]]"
| "split_slash (c # cs) =
     (if c = CHR ''/'' then [] # split_slash cs
      else (case split_slash cs of [] \<Rightarrow> [[c]] | x # xs \<Rightarrow> (c # x) # xs))"

fun join_slash :: "string list \<Rightarrow> string" where
  "join_slash [] = []"
| "join_slash [x] = x"
| "join_slash (x # y # ys) = x @ ''/'' @ join_slash (y # ys)"

text \<open>
  \<^verbatim>\<open>filepath.Clean\<close> for a Unix control plane (separator \<^verbatim>\<open>/\<close>), element by element: empty
  elements and \<^verbatim>\<open>.\<close> are dropped, \<^verbatim>\<open>..\<close> removes the element before it when there is one
  that is not itself \<^verbatim>\<open>..\<close>, is dropped at the root, and is kept otherwise.
\<close>

definition clean_step :: "bool \<Rightarrow> string list \<Rightarrow> string \<Rightarrow> string list" where
  "clean_step rooted out e =
     (if e = '''' \<or> e = ''.'' then out
      else if e = ''..'' then
        (if out \<noteq> [] \<and> last out \<noteq> ''..'' then butlast out
         else if rooted then out
         else out @ [''..''])
      else out @ [e])"

definition Clean :: "string \<Rightarrow> string" where
  "Clean path =
     (if path = '''' then ''.''
      else
        (let rooted = (hd path = CHR ''/'');
             out = foldl (clean_step rooted) [] (split_slash path);
             r = (if rooted then ''/'' else '''') @ join_slash out
         in if r = '''' then ''.'' else r))"

text \<open>\<^verbatim>\<open>filepath.Join\<close>: leading empty elements are skipped, the rest is joined with the
  separator and cleaned; with nothing left the result is the empty string.\<close>

definition Join :: "string list \<Rightarrow> string" where
  "Join elem =
     (case dropWhile (\<lambda>e. e = '''') elem of
        [] \<Rightarrow> ''''
      | e # es \<Rightarrow> Clean (join_slash (e # es)))"

text \<open>\<^verbatim>\<open>filepath.Base\<close>: the last element of a path, trailing separators removed first.\<close>

definition Base :: "string \<Rightarrow> string" where
  "Base path =
     (if path = '''' then ''.''
      else
        (let p = dropWhile (\<lambda>c. c = CHR ''/'') (rev path);
             b = rev (takeWhile (\<lambda>c. c \<noteq> CHR ''/'') p)
         in if b = '''' then ''/'' else b))"

section \<open>The agent revision\<close>

text \<open>
  \<^verbatim>\<open>AgentHostGateway.GetAgentRevision\<close>: the argument is what \<^verbatim>\<open>ioutil.ReadFile\<close> returned for
  the file \<^verbatim>\<open>version\<close> in the executables directory.
\<close>

definition versionFile :: "string \<Rightarrow> string" where
  "versionFile executablesDir = Join [executablesDir, ''version'']"

definition GetAgentRevision :: "error + string \<Rightarrow> error + string" where
  "GetAgentRevision readFile =
     (case readFile of
        Inl err \<Rightarrow> Inl (Wrap err ''error reading agent version file'')
      | Inr hashBytes \<Rightarrow> Inr (TrimSpace hashBytes))"

section \<open>Task completion and dispatch\<close>

text \<open>
  What the collaborators of the API server answer during one request.  The constants of
  package \<^verbatim>\<open>evergreen\<close> and the lock-timeout error are declared outside the modelled files, so
  they are fields too and every result holds for all their values.
\<close>

record api_env =
  HostDecommissioned :: string
  HostQuarantined :: string
  TaskSucceeded :: string
  TaskFailed :: string
  TaskUndispatched :: string
  PatchVersionRequester :: string
  APIServerLockTitle :: string
  ErrLockTimeout :: error
  ExecutablesDir :: string
  host_FindOne :: "error + host option"
  store_ClearRunningTask :: "error option"
  store_UpdateRunningTask :: "bool \<times> error option"
  ReadFile :: "error + string"
  FindTaskQueueForDistro :: "error + string list option"
  DispatchTaskForHost :: "string list \<Rightarrow> host \<Rightarrow> error + task option"
  ReadJSONInto :: "error + TaskEndDetail"
  FindOneProjectRef :: "ProjectRef option \<times> error option"
  FindProject :: "error option"
  getGlobalLock :: bool
  MarkEnd :: "error option"
  RunTaskFailureTriggers :: "error option"
  SetActiveState :: "error option"
  UpdateExpectedDuration :: "error option"

text \<open>
  Modelled from the spec: \<^verbatim>\<open>host.ClearRunningTask\<close> is not among the source files.  The
  spec has it ``clear the host's running-task field''; the call site shows that it returns
  an error.  The answer of the store is the first argument: the field is cleared exactly
  when the store reports no error.
\<close>

definition ClearRunningTask :: "error option \<Rightarrow> host \<Rightarrow> string \<Rightarrow> error option \<times> host" where
  "ClearRunningTask answer h prevTaskId =
     (case answer of
        Some err \<Rightarrow> (Some err, h)
      | None \<Rightarrow> (None, h\<lparr>h_RunningTask := []\<rparr>))"

text \<open>
  Modelled from the spec: \<^verbatim>\<open>host.UpdateRunningTask\<close> is not among the source files.  The
  spec has it ``update the host's running-task field to the new task's identifier''; the
  call site shows that it returns a flag and an error.  The answer of the store is the
  first argument: the field is set exactly when the store reports no error and that a
  document was updated.
\<close>

definition UpdateRunningTask ::
    "bool \<times> error option \<Rightarrow> host \<Rightarrow> string \<Rightarrow> string \<Rightarrow> (bool \<times> error option) \<times> host" where
  "UpdateRunningTask answer h prevTaskId newTaskId =
     (case answer of
        (ok, Some err) \<Rightarrow> ((ok, Some err), h)
      | (ok, None) \<Rightarrow> ((ok, None), if ok then h\<lparr>h_RunningTask := newTaskId\<rparr> else h))"

text \<open>
  \<^verbatim>\<open>markHostRunningTaskFinished\<close>: with an empty new identifier the field is cleared first, and
  a failure of that is logged and ends the function; in every other case the update
  follows (also after a successful clear, as in the source).
\<close>

definition markHostRunningTaskFinished ::
    "api_env \<Rightarrow> host \<Rightarrow> task \<Rightarrow> string \<Rightarrow> host \<times> event list" where
  "markHostRunningTaskFinished env h t newTaskId =
     (let (err, h1, tr1) =
            (if newTaskId = '''' then
               (case ClearRunningTask (store_ClearRunningTask env) h (t_Id t) of
                  (err, h') \<Rightarrow> (err, h', [EvClearRunningTask (h_Id h) (t_Id t)]))
             else (None, h, []))
      in case err of
           Some e \<Rightarrow>
             (h1, tr1 @ [EvLog Error (''error clearing task '' @ t_Id t @ '' on host '' @ h_Id h
                                       @ '' : '' @ e)])
         | None \<Rightarrow>
             (case UpdateRunningTask (store_UpdateRunningTask env) h1 (t_Id t) newTaskId of
                ((ok, err2), h2) \<Rightarrow>
                  (h2, tr1 @ [EvUpdateRunningTask (h_Id h) (t_Id t) newTaskId] @
                       (if err2 \<noteq> None \<or> \<not> ok then
                          [EvLog Error (t_Id t @ '' on host '' @ h_Id h @ '' to '' @ [CHR 0x27, CHR 0x27] @ '': ''
                                         @ (case err2 of None \<Rightarrow> ''<nil>'' | Some e \<Rightarrow> e))]
                        else []))))"

text \<open>\<^verbatim>\<open>getNextDistroTask\<close>.\<close>

definition getNextDistroTask ::
    "api_env \<Rightarrow> task \<Rightarrow> host \<Rightarrow> (error + task option) \<times> event list" where
  "getNextDistroTask env currentTask h =
     (case FindTaskQueueForDistro env of
        Inl err \<Rightarrow>
          (Inl (Wrap err (''Error locating distro queue ('' @ t_DistroId currentTask
                           @ '') for task '' @ [CHR 0x27] @ t_Id currentTask @ [CHR 0x27])),
           [EvFindTaskQueueForDistro (t_DistroId currentTask)])
      | Inr None \<Rightarrow>
          (Inl (''Nil task queue found for task '' @ [CHR 0x27] @ t_Id currentTask @ [CHR 0x27]
                 @ ''s distro queue - '' @ [CHR 0x27] @ t_DistroId currentTask @ [CHR 0x27]),
           [EvFindTaskQueueForDistro (t_DistroId currentTask)])
      | Inr (Some taskQueue) \<Rightarrow>
          (case DispatchTaskForHost env taskQueue h of
             Inl err \<Rightarrow>
               (Inl (Wrap err (''Error dequeuing task for host '' @ h_Id h)),
                [EvFindTaskQueueForDistro (t_DistroId currentTask),
                 EvDispatchTaskForHost taskQueue (h_Id h)])
           | Inr None \<Rightarrow>
               (Inr None,
                [EvFindTaskQueueForDistro (t_DistroId currentTask),
                 EvDispatchTaskForHost taskQueue (h_Id h)])
           | Inr (Some nextTask) \<Rightarrow>
               (Inr (Some nextTask),
                [EvFindTaskQueueForDistro (t_DistroId currentTask),
                 EvDispatchTaskForHost taskQueue (h_Id h)])))"

text \<open>
  \<^verbatim>\<open>taskFinished\<close>.  The result is the host document as the handler leaves it (\<open>None\<close>
  when no host was located) and the events of the request; the response to the agent is
  the \<open>EvWriteJSON\<close> event.
\<close>

definition taskFinished :: "api_env \<Rightarrow> task \<Rightarrow> host option \<times> event list" where
  "taskFinished env t =
     (case host_FindOne env of
        Inl err \<Rightarrow>
          (let message = ''Error locating host for task '' @ t_Id t @ '' - set to ''
                          @ t_HostId t @ '': '' @ err
           in (None, [EvHostFindOne (t_Id t), EvLog Error message,
                      EvWriteJSON StatusInternalServerError
                        (taskEndResponse0\<lparr>Message := message\<rparr>)]))
      | Inr None \<Rightarrow>
          (let message = ''Error finding host running for task '' @ t_Id t @ '' - set to ''
                          @ t_HostId t
           in (None, [EvHostFindOne (t_Id t), EvLog Error message,
                      EvWriteJSON StatusInternalServerError
                        (taskEndResponse0\<lparr>Message := message\<rparr>)]))
      | Inr (Some h) \<Rightarrow>
          if h_Status h = HostDecommissioned env \<or> h_Status h = HostQuarantined env then
            (case markHostRunningTaskFinished env h t '''' of
               (h', tr) \<Rightarrow>
                 (let message = ''Host '' @ t_HostId t @ '' - running '' @ t_Id t
                                 @ '' - is in state '' @ [CHR 0x27] @ h_Status h
                                 @ [CHR 0x27] @ ''. Agent will terminate''
                  in (Some h', [EvHostFindOne (t_Id t)] @ tr @
                        [EvLog Info message,
                         EvWriteJSON StatusOK (taskEndResponse0\<lparr>Message := message\<rparr>)])))
          else
            (case GetAgentRevision (ReadFile env) of
               Inl err \<Rightarrow>
                 (case markHostRunningTaskFinished env h t '''' of
                    (h', tr) \<Rightarrow>
                      (Some h',
                       [EvHostFindOne (t_Id t), EvGoUpdateTaskCost (t_Id t) (h_Id h),
                        EvReadFile (versionFile (ExecutablesDir env))] @ tr @
                       [EvLog Error (''failed to get agent revision: '' @ err),
                        EvWriteJSON StatusInternalServerError
                          (taskEndResponse0\<lparr>Message := err\<rparr>)]))
             | Inr agentRevision \<Rightarrow>
                 if h_AgentRevision h \<noteq> agentRevision then
                   (case markHostRunningTaskFinished env h t '''' of
                      (h', tr) \<Rightarrow>
                        (let message = ''Remote agent needs to be rebuilt''
                         in (Some h',
                             [EvHostFindOne (t_Id t), EvGoUpdateTaskCost (t_Id t) (h_Id h),
                              EvReadFile (versionFile (ExecutablesDir env))] @ tr @
                             [EvLog Error message,
                              EvWriteJSON StatusOK (taskEndResponse0\<lparr>Message := message\<rparr>)])))
                 else
                   (case getNextDistroTask env t h of
                      (Inl err, trq) \<Rightarrow>
                        (case markHostRunningTaskFinished env h t '''' of
                           (h', tr) \<Rightarrow>
                             (Some h',
                              [EvHostFindOne (t_Id t), EvGoUpdateTaskCost (t_Id t) (h_Id h),
                               EvReadFile (versionFile (ExecutablesDir env))] @ trq @ tr @
                              [EvLog Error err,
                               EvWriteJSON StatusOK (taskEndResponse0\<lparr>Message := err\<rparr>)]))
                    | (Inr None, trq) \<Rightarrow>
                        (case markHostRunningTaskFinished env h t '''' of
                           (h', tr) \<Rightarrow>
                             (Some h',
                              [EvHostFindOne (t_Id t), EvGoUpdateTaskCost (t_Id t) (h_Id h),
                               EvReadFile (versionFile (ExecutablesDir env))] @ trq @ tr @
                              [EvWriteJSON StatusOK
                                 (taskEndResponse0\<lparr>Message := ''No next task on queue''\<rparr>)]))
                    | (Inr (Some nextTask), trq) \<Rightarrow>
                        (case markHostRunningTaskFinished env h t (t_Id nextTask) of
                           (h', tr) \<Rightarrow>
                             (Some h',
                              [EvHostFindOne (t_Id t), EvGoUpdateTaskCost (t_Id t) (h_Id h),
                               EvReadFile (versionFile (ExecutablesDir env))] @ trq @ tr @
                              [EvWriteJSON StatusOK
                                 (taskEndResponse0\<lparr>Message := ''Proceed with next task'',
                                    RunNext := True, TaskId := t_Id nextTask,
                                    TaskSecret := t_Secret nextTask\<rparr>)])))))"

text \<open>The responses written to the agent, and which events consult the distro queue.\<close>

fun responses :: "event list \<Rightarrow> (nat \<times> TaskEndResponse) list" where
  "responses [] = []"
| "responses (EvWriteJSON code r # es) = (code, r) # responses es"
| "responses (e # es) = responses es"


text \<open>
  \<^verbatim>\<open>oldEndTask\<close>, the handler of a task-end report.  The task \<open>t\<close> is what \<^verbatim>\<open>MustHaveTask\<close>
  found in the request and \<open>remoteAddr\<close> is \<^verbatim>\<open>r.RemoteAddr\<close>.  The part that runs with the
  global lock held is \<open>endTaskLocked\<close>; the deferred release follows it on every path.
\<close>

definition endTaskLocked ::
    "api_env \<Rightarrow> task \<Rightarrow> TaskEndDetail \<Rightarrow> ProjectRef \<Rightarrow> host option \<times> event list" where
  "endTaskLocked env t details projectRef =
     (case MarkEnd env of
        Some err \<Rightarrow>
          (None, [EvMarkEnd (t_Id t) (Status details) (DeactivatePrevious projectRef),
                  EvLoggedError StatusInternalServerError
                    (Wrap err (''Error calling mark finish on task '' @ t_Id t))])
      | None \<Rightarrow>
          (let tr2 = [EvMarkEnd (t_Id t) (Status details) (DeactivatePrevious projectRef)] @
                     (if t_Requester t \<noteq> PatchVersionRequester env then
                        [EvLog Info (''Processing alert triggers for task '' @ t_Id t),
                         EvRunTaskFailureTriggers (t_Id t)] @
                        (case RunTaskFailureTriggers env of
                           Some err \<Rightarrow>
                             [EvLog Error (''processing alert triggers for task '' @ t_Id t
                                            @ '': '' @ err)]
                         | None \<Rightarrow> [])
                      else [])
           in if Status details = TaskUndispatched env then
                (case SetActiveState env of
                   Some err \<Rightarrow>
                     (let message = ''Error deactivating task after abort: '' @ err
                      in (None, tr2 @ [EvSetActiveState (t_Id t) False, EvLog Error message,
                                       EvWriteJSON StatusInternalServerError
                                         (taskEndResponse0\<lparr>Message := message\<rparr>)]))
                 | None \<Rightarrow>
                     (case taskFinished env t of
                        (h, tr) \<Rightarrow> (h, tr2 @ [EvSetActiveState (t_Id t) False] @ tr)))
              else
                (case taskFinished env t of
                   (h, tr) \<Rightarrow>
                     (h, tr2 @ [EvUpdateExpectedDuration (t_Id t)] @
                         (case UpdateExpectedDuration env of
                            Some err \<Rightarrow> [EvLog Error (''Error updating expected duration: '' @ err)]
                          | None \<Rightarrow> []) @
                         [EvLog Info (''Successfully marked task '' @ t_Id t @ '' as finished'')]
                         @ tr))))"

definition oldEndTask :: "api_env \<Rightarrow> task \<Rightarrow> string \<Rightarrow> host option \<times> event list" where
  "oldEndTask env t remoteAddr =
     (case ReadJSONInto env of
        Inl err \<Rightarrow> (None, [EvReadJSON, EvHttpError StatusBadRequest err])
      | Inr details \<Rightarrow>
          if Status details \<noteq> TaskSucceeded env \<and> Status details \<noteq> TaskFailed env
             \<and> Status details \<noteq> TaskUndispatched env then
            (None, [EvReadJSON,
                    EvLoggedError StatusBadRequest
                      (''Invalid end status '' @ [CHR 0x27] @ Status details @ [CHR 0x27]
                        @ '' for task '' @ t_Id t)])
          else
            (case FindOneProjectRef env of
               (projectRef, err) \<Rightarrow>
                 (let tr1 = [EvReadJSON, EvFindOneProjectRef (t_Project t)] @
                            (case err of
                               Some e \<Rightarrow> [EvLoggedError StatusInternalServerError e]
                             | None \<Rightarrow> [])
                  in case projectRef of
                       None \<Rightarrow>
                         (None, tr1 @ [EvLoggedError StatusNotFound ''empty projectRef for task''])
                     | Some pref \<Rightarrow>
                         (case FindProject env of
                            Some e \<Rightarrow>
                              (None, tr1 @ [EvFindProject (Identifier pref),
                                            EvLoggedError StatusInternalServerError e])
                          | None \<Rightarrow>
                              if \<not> getGlobalLock env then
                                (None, tr1 @ [EvFindProject (Identifier pref),
                                              EvGetGlobalLock remoteAddr (t_Id t),
                                              EvLoggedError StatusInternalServerError
                                                (ErrLockTimeout env)])
                              else
                                (case endTaskLocked env t details pref of
                                   (h, tr) \<Rightarrow>
                                     (h, tr1 @ [EvFindProject (Identifier pref),
                                                EvGetGlobalLock remoteAddr (t_Id t)] @ tr @
                                         [EvReleaseGlobalLock remoteAddr (t_Id t)]))))))"

text \<open>
  The events that change a task, a host or a queue (\<open>is_mutation\<close>), and the events of
  \<^verbatim>\<open>taskFinished\<close>, which takes the dispatch decision (\<open>is_dispatch_step\<close>).
\<close>

fun is_mutation :: "event \<Rightarrow> bool" where
  "is_mutation (EvMarkEnd i s d) = True"
| "is_mutation (EvRunTaskFailureTriggers i) = True"
| "is_mutation (EvSetActiveState i a) = True"
| "is_mutation (EvUpdateExpectedDuration i) = True"
| "is_mutation (EvClearRunningTask h i) = True"
| "is_mutation (EvUpdateRunningTask h i n) = True"
| "is_mutation (EvGoUpdateTaskCost i h) = True"
| "is_mutation (EvDispatchTaskForHost q h) = True"
| "is_mutation e = False"

fun is_dispatch_step :: "event \<Rightarrow> bool" where
  "is_dispatch_step (EvHostFindOne i) = True"
| "is_dispatch_step (EvClearRunningTask h i) = True"
| "is_dispatch_step (EvUpdateRunningTask h i n) = True"
| "is_dispatch_step (EvGoUpdateTaskCost i h) = True"
| "is_dispatch_step (EvReadFile f) = True"
| "is_dispatch_step (EvFindTaskQueueForDistro d) = True"
| "is_dispatch_step (EvDispatchTaskForHost q h) = True"
| "is_dispatch_step (EvWriteJSON c r) = True"
| "is_dispatch_step e = False"

fun is_lock_event :: "event \<Rightarrow> bool" where
  "is_lock_event (EvGetGlobalLock a i) = True"
| "is_lock_event (EvReleaseGlobalLock a i) = True"
| "is_lock_event e = False"

section \<open>The host agent gateway\<close>

text \<open>The timeouts of the three remote steps, as \<^verbatim>\<open>time.Duration\<close> values (nanoseconds).\<close>

definition MakeShellTimeout :: int where "MakeShellTimeout = 2 * 60 * 1000000000"
definition SCPTimeout :: int where "SCPTimeout = 3 * 60 * 1000000000"
definition StartAgentTimeout :: int where "StartAgentTimeout = 2 * 60 * 1000000000"
definition agentFile :: string where "agentFile = ''agent''"

text \<open>
  What the collaborators of the gateway answer during one call of \<^verbatim>\<open>StartAgentOnHost\<close>.
  A \<open>run_\<close> field is what \<^verbatim>\<open>util.RunFunctionWithTimeout\<close> returned for the step together
  with the text of the step's capped output log afterwards; a \<open>stop_\<close> field is what the
  command's \<^verbatim>\<open>Stop\<close> returned.  The version file is read twice, before and after the
  transfer, and may have changed in between.  \<^verbatim>\<open>util.ErrTimedOut\<close> is declared outside the
  modelled files.
\<close>

record gw_env =
  gw_ExecutablesDir :: string
  ApiUrl :: string
  ErrTimedOut :: error
  GetCloudHost :: "error option"
  GetSSHOptions :: "error + string list"
  ParseSSHInfo :: "string \<Rightarrow> error + SSHInfo"
  run_makeShellCmd :: "error option \<times> string"
  stop_makeShellCmd :: "error option"
  distro_FindOne :: "string \<Rightarrow> error + distro"
  ReadFile_preSCP :: "error + string"
  run_scpAgentCmd :: "error option \<times> string"
  stop_scpAgentCmd :: "error option"
  ReadFile_postSCP :: "error + string"
  store_CreateSecret :: "error + string"
  run_startAgentCmd :: "error option \<times> string"
  stop_startAgentCmd :: "error option"
  store_SetAgentRevision :: "error option"

text \<open>
  Modelled from the spec: \<^verbatim>\<open>host.CreateSecret\<close> is not among the source files.  The spec
  has the gateway ``generate and persist'' a secret for a host that has none; the call site
  shows that it returns an error.  The answer of the store, an error or the new secret, is
  the first argument.
\<close>

definition CreateSecret :: "error + string \<Rightarrow> host \<Rightarrow> error option \<times> host" where
  "CreateSecret answer h =
     (case answer of
        Inl err \<Rightarrow> (Some err, h)
      | Inr secret \<Rightarrow> (None, h\<lparr>h_Secret := secret\<rparr>))"

text \<open>
  Modelled from the spec: \<^verbatim>\<open>host.SetAgentRevision\<close> is not among the source files.  The
  spec has the gateway ``record the deployed agent revision on the host''; the call site
  shows that it returns an error.  The answer of the store is the first argument: the
  revision is recorded exactly when the store reports no error.
\<close>

definition SetAgentRevision :: "error option \<Rightarrow> host \<Rightarrow> string \<Rightarrow> error option \<times> host" where
  "SetAgentRevision answer h agentRevision =
     (case answer of
        Some err \<Rightarrow> (Some err, h)
      | None \<Rightarrow> (None, h\<lparr>h_AgentRevision := agentRevision\<rparr>))"

text \<open>\<^verbatim>\<open>grip.Error\<close>, \<^verbatim>\<open>grip.Notice\<close> of an error value: a nil error logs nothing, and
  \<^verbatim>\<open>errors.Wrap\<close> of nil is nil.\<close>

definition log_error :: "level \<Rightarrow> error option \<Rightarrow> event list" where
  "log_error l err = (case err of None \<Rightarrow> [] | Some e \<Rightarrow> [EvLog l e])"

definition Wrap_opt :: "error option \<Rightarrow> string \<Rightarrow> error option" where
  "Wrap_opt err message = map_option (\<lambda>e. Wrap e message) err"

text \<open>\<^verbatim>\<open>executableSubPath\<close>; \<open>mainName\<close> is its local variable of that name.\<close>

definition mainName :: "distro \<Rightarrow> string" where
  "mainName d = (if HasPrefix (d_Arch d) ''windows'' then ''main.exe'' else ''main'')"

definition executableSubPath :: "gw_env \<Rightarrow> string \<Rightarrow> (error + string) \<times> event list" where
  "executableSubPath env ident =
     (case distro_FindOne env ident of
        Inl err \<Rightarrow> (Inl (Wrap err (''error finding distro '' @ ident)), [EvDistroFindOne ident])
      | Inr d \<Rightarrow> (Inr (Join [d_Arch d, mainName d]), [EvDistroFindOne ident]))"

text \<open>The two commands of \<^verbatim>\<open>prepRemoteHost\<close>.\<close>

definition makeShellCmd :: "host \<Rightarrow> SSHInfo \<Rightarrow> string list \<Rightarrow> RemoteCommand" where
  "makeShellCmd hostObj hostInfo sshOptions =
     \<lparr>CmdString = ''mkdir -m 777 -p '' @ d_WorkDir (h_Distro hostObj),
      RemoteHostName = Hostname hostInfo,
      User = h_User hostObj,
      Options = [''-p'', Port hostInfo] @ sshOptions,
      Background = False\<rparr>"

definition scpAgentCmd ::
    "gw_env \<Rightarrow> host \<Rightarrow> SSHInfo \<Rightarrow> string list \<Rightarrow> string \<Rightarrow> ScpCommand" where
  "scpAgentCmd env hostObj hostInfo sshOptions execSubPath =
     \<lparr>Source = Join [gw_ExecutablesDir env, execSubPath],
      Dest = d_WorkDir (h_Distro hostObj),
      scp_RemoteHostName = Hostname hostInfo,
      scp_User = h_User hostObj,
      scp_Options = [''-P'', Port hostInfo] @ sshOptions\<rparr>"

text \<open>
  \<^verbatim>\<open>GetAgentRevision\<close> as \<^verbatim>\<open>prepRemoteHost\<close> uses it: the revision (empty on an error) and
  the error, which is only logged.
\<close>

definition revision_of :: "error + string \<Rightarrow> string \<times> error option" where
  "revision_of r =
     (case GetAgentRevision r of Inl err \<Rightarrow> ([], Some err) | Inr revision \<Rightarrow> (revision, None))"

text \<open>
  \<^verbatim>\<open>prepRemoteHost\<close>.  A \<^verbatim>\<open>defer grip.Notice(cmd.Stop())\<close> stops the command where the
  statement stands and logs what \<^verbatim>\<open>Stop\<close> returned when the function returns, the later
  statement first.  The text that \<^verbatim>\<open>%#v\<close> prints for the command is not modelled.
\<close>

definition prepRemoteHost ::
    "gw_env \<Rightarrow> host \<Rightarrow> string list \<Rightarrow> (error + string) \<times> event list" where
  "prepRemoteHost env hostObj sshOptions =
     (case ParseSSHInfo env (h_Host hostObj) of
        Inl err \<Rightarrow>
          (Inl (Wrap err (''error parsing ssh info '' @ h_Host hostObj)),
           [EvParseSSHInfo (h_Host hostObj)])
      | Inr hostInfo \<Rightarrow>
          (let mk = makeShellCmd hostObj hostInfo sshOptions;
               tr1 = [EvParseSSHInfo (h_Host hostObj), EvLog Info ''Directories command'',
                      EvRun mk MakeShellTimeout, EvStop mk];
               deferred1 = log_error Notice (stop_makeShellCmd env)
           in case run_makeShellCmd env of
                (Some err, mkdirOutput) \<Rightarrow>
                  if err = ErrTimedOut env then
                    (Inl (''creating remote directories timed out: '' @ mkdirOutput),
                     tr1 @ deferred1)
                  else
                    (Inl (Wrap err (''error creating directories on remote machine (''
                                     @ mkdirOutput @ '')'')),
                     tr1 @ deferred1)
              | (None, mkdirOutput) \<Rightarrow>
                  (case executableSubPath env (d_Id (h_Distro hostObj)) of
                     (Inl err, trd) \<Rightarrow>
                       (Inl (Wrap err ''error computing subpath to executable''),
                        tr1 @ trd @ deferred1)
                   | (Inr execSubPath, trd) \<Rightarrow>
                       (let scp = scpAgentCmd env hostObj hostInfo sshOptions execSubPath;
                            (preSCPAgentRevision, preErr) = revision_of (ReadFile_preSCP env);
                            tr2 = tr1 @ trd @ [EvReadFile (versionFile (gw_ExecutablesDir env))] @
                                  log_error Error
                                    (Wrap_opt preErr ''Error getting pre scp agent revision'') @
                                  [EvRunScp scp SCPTimeout, EvStopScp scp];
                            deferred2 = log_error Notice (stop_scpAgentCmd env)
                        in case run_scpAgentCmd env of
                             (Some err, scpAgentOutput) \<Rightarrow>
                               if err = ErrTimedOut env then
                                 (Inl (''scp-ing agent binary timed out: '' @ scpAgentOutput),
                                  tr2 @ deferred2 @ deferred1)
                               else
                                 (Inl (''error copying agent binary to remote machine (''
                                        @ err @ ''): '' @ scpAgentOutput),
                                  tr2 @ deferred2 @ deferred1)
                           | (None, scpAgentOutput) \<Rightarrow>
                               (let (postSCPAgentRevision, postErr) =
                                      revision_of (ReadFile_postSCP env)
                                in (Inr preSCPAgentRevision,
                                    tr2 @ [EvReadFile (versionFile (gw_ExecutablesDir env))] @
                                    log_error Error
                                      (Wrap_opt postErr ''Error getting post scp agent revision'') @
                                    (if preSCPAgentRevision \<noteq> postSCPAgentRevision then
                                       [EvLog Warning
                                          (''Agent revision was '' @ preSCPAgentRevision
                                           @ '' before scp but is now '' @ postSCPAgentRevision
                                           @ ''. Using previous revision '' @ preSCPAgentRevision
                                           @ '' for host '' @ h_Id hostObj)]
                                     else []) @
                                    deferred2 @ deferred1))))))"

text \<open>\<^verbatim>\<open>startAgentOnRemote\<close>: the path of the executable, the command line and the call.\<close>

definition pathToExecutable :: "host \<Rightarrow> string" where
  "pathToExecutable hostObj = Join [d_WorkDir (h_Distro hostObj), ''main'']"

definition quoted :: "string \<Rightarrow> string" where
  "quoted s = [CHR 0x22] @ s @ [CHR 0x22]"

definition remoteCmd :: "string \<Rightarrow> host \<Rightarrow> string" where
  "remoteCmd apiURL hostObj =
     pathToExecutable hostObj @ '' -api_server '' @ quoted apiURL
       @ '' -host_id '' @ quoted (h_Id hostObj)
       @ '' -host_secret '' @ quoted (h_Secret hostObj)
       @ '' -log_prefix '' @ quoted (Join [d_WorkDir (h_Distro hostObj), agentFile])
       @ '' -https_cert '' @ quoted []"

definition startAgentCmd :: "string \<Rightarrow> host \<Rightarrow> SSHInfo \<Rightarrow> string list \<Rightarrow> RemoteCommand" where
  "startAgentCmd apiURL hostObj hostInfo sshOptions =
     \<lparr>CmdString = remoteCmd apiURL hostObj,
      RemoteHostName = Hostname hostInfo,
      User = h_User hostObj,
      Options = [''-p'', Port hostInfo] @ sshOptions,
      Background = True\<rparr>"

definition startAgentOnRemote ::
    "gw_env \<Rightarrow> string \<Rightarrow> host \<Rightarrow> string list \<Rightarrow> error option \<times> event list" where
  "startAgentOnRemote env apiURL hostObj sshOptions =
     (case ParseSSHInfo env (h_Host hostObj) of
        Inl err \<Rightarrow>
          (Some (Wrap err (''error parsing ssh info '' @ h_Host hostObj)),
           [EvLog Info (remoteCmd apiURL hostObj), EvParseSSHInfo (h_Host hostObj)])
      | Inr hostInfo \<Rightarrow>
          (let cmd = startAgentCmd apiURL hostObj hostInfo sshOptions;
               tr = [EvLog Info (remoteCmd apiURL hostObj), EvParseSSHInfo (h_Host hostObj),
                     EvRun cmd StartAgentTimeout, EvStop cmd] @
                    log_error Notice (stop_startAgentCmd env)
           in case run_startAgentCmd env of
                (Some err, startAgentLog) \<Rightarrow>
                  if err = ErrTimedOut env then (Some ''starting agent timed out'', tr)
                  else (Some (Wrap err (''error starting agent ('' @ h_Id hostObj @ ''): ''
                                         @ startAgentLog)), tr)
              | (None, startAgentLog) \<Rightarrow> (None, tr)))"

text \<open>
  \<^verbatim>\<open>StartAgentOnHost\<close>.  The host is passed by value; the result carries the host document as
  the gateway leaves it, next to the returned error and the events.
\<close>

definition StartAgentOnHost :: "gw_env \<Rightarrow> host \<Rightarrow> error option \<times> host \<times> event list" where
  "StartAgentOnHost env hostObj =
     (case GetCloudHost env of
        Some err \<Rightarrow>
          (Some (Wrap err (''Failed to get cloud host for '' @ h_Id hostObj)), hostObj,
           [EvGetCloudHost (h_Id hostObj)])
      | None \<Rightarrow>
          (case GetSSHOptions env of
             Inl err \<Rightarrow>
               (Some (Wrap err (''Error getting ssh options for host '' @ h_Id hostObj)), hostObj,
                [EvGetCloudHost (h_Id hostObj), EvGetSSHOptions])
           | Inr sshOptions \<Rightarrow>
               (let tr0 = [EvGetCloudHost (h_Id hostObj), EvGetSSHOptions,
                           EvLog Info (''Prepping remote host '' @ h_Id hostObj @ ''...'')]
                in case prepRemoteHost env hostObj sshOptions of
                     (Inl err, trp) \<Rightarrow>
                       (Some (Wrap err (''error prepping remote host '' @ h_Id hostObj)), hostObj,
                        tr0 @ trp)
                   | (Inr agentRevision, trp) \<Rightarrow>
                       (let tr1 = tr0 @ trp @
                              [EvLog Info (''Prepping host '' @ h_Id hostObj
                                            @ '' finished successfully''),
                               EvLog Info (''Starting agent on host '' @ h_Id hostObj)];
                            (serr, hostObj1, trs) =
                              (if h_Secret hostObj = [] then
                                 (case CreateSecret (store_CreateSecret env) hostObj of
                                    (e, h') \<Rightarrow> (e, h', [EvCreateSecret (h_Id hostObj)]))
                               else (None, hostObj, []))
                        in case serr of
                             Some err \<Rightarrow>
                               (Some (Wrap err (''creating secret for '' @ h_Id hostObj)),
                                hostObj1, tr1 @ trs)
                           | None \<Rightarrow>
                               (case startAgentOnRemote env (ApiUrl env) hostObj1 sshOptions of
                                  (Some err, tra) \<Rightarrow> (Some err, hostObj1, tr1 @ trs @ tra)
                                | (None, tra) \<Rightarrow>
                                    (let tr2 = tr1 @ trs @ tra @
                                           [EvLog Info (''Agent successfully started for host ''
                                                         @ h_Id hostObj),
                                            EvSetAgentRevision (h_Id hostObj) agentRevision]
                                     in case SetAgentRevision (store_SetAgentRevision env)
                                               hostObj1 agentRevision of
                                          (Some err, h2) \<Rightarrow> (Some err, h2, tr2)
                                        | (None, h2) \<Rightarrow> (None, h2, tr2)))))))"

text \<open>
  The two revisions \<^verbatim>\<open>prepRemoteHost\<close> compares, the warning it logs when they differ, the
  revisions the gateway asked the store to record, and the events of the transfer step.
\<close>

definition preSCPAgentRevision :: "gw_env \<Rightarrow> string" where
  "preSCPAgentRevision env = fst (revision_of (ReadFile_preSCP env))"

definition postSCPAgentRevision :: "gw_env \<Rightarrow> string" where
  "postSCPAgentRevision env = fst (revision_of (ReadFile_postSCP env))"

definition revision_warning :: "gw_env \<Rightarrow> host \<Rightarrow> event" where
  "revision_warning env hostObj =
     EvLog Warning
       (''Agent revision was '' @ preSCPAgentRevision env
        @ '' before scp but is now '' @ postSCPAgentRevision env
        @ ''. Using previous revision '' @ preSCPAgentRevision env
        @ '' for host '' @ h_Id hostObj)"


fun recorded_revisions :: "event list \<Rightarrow> string list" where
  "recorded_revisions [] = []"
| "recorded_revisions (EvSetAgentRevision h r # es) = r # recorded_revisions es"
| "recorded_revisions (e # es) = recorded_revisions es"

fun is_transfer_event :: "event \<Rightarrow> bool" where
  "is_transfer_event (EvRunScp c d) = True"
| "is_transfer_event (EvStopScp c) = True"
| "is_transfer_event (EvDistroFindOne i) = True"
| "is_transfer_event (EvReadFile f) = True"
| "is_transfer_event e = False"

section \<open>Predicates for the properties\<close>

text \<open>
  A path \<open>s\<close> ends in the element \<open>name\<close>: the name is the whole path or follows a
  separator.  A plain name is a non-empty element other than \<^verbatim>\<open>.\<close> and \<^verbatim>\<open>..\<close>.
\<close>

definition ends_in :: "string \<Rightarrow> string \<Rightarrow> bool" where
  "ends_in s name = (\<exists>p. s = p @ name \<and> (p = [] \<or> last p = CHR ''/''))"

definition plain_name :: "string \<Rightarrow> bool" where
  "plain_name name = (name \<noteq> [] \<and> CHR ''/'' \<notin> set name \<and> name \<noteq> ''.'' \<and> name \<noteq> ''..'')"


section \<open>Concrete requests\<close>

text \<open>
  The end-to-end scenario of the spec: host \<open>H\<close> runs \<open>T1\<close> with the deployed revision
  \<open>r1\<close>, the version file holds \<open>r1\<close>, the queue of the distro holds \<open>T2\<close>, and every
  collaborator succeeds.  The other requests change one answer each.
\<close>

definition distro_d1 :: distro where
  "distro_d1 = \<lparr>d_Id = ''d1'', d_Arch = ''linux_amd64'', d_WorkDir = ''/data/mci''\<rparr>"

definition host_H :: host where
  "host_H = \<lparr>h_Id = ''H'', h_Host = ''h.example.com:22'', h_User = ''mci'', h_Distro = distro_d1,
             h_Status = ''running'', h_RunningTask = ''T1'', h_AgentRevision = ''r1'',
             h_Secret = ''s3cret''\<rparr>"

definition task_T1 :: task where
  "task_T1 = \<lparr>t_Id = ''T1'', t_HostId = ''H'', t_DistroId = ''d1'', t_Secret = ''secret1'',
              t_Project = ''proj'', t_Requester = ''gitter_request''\<rparr>"

definition task_T2 :: task where
  "task_T2 = \<lparr>t_Id = ''T2'', t_HostId = '''', t_DistroId = ''d1'', t_Secret = ''secret2'',
              t_Project = ''proj'', t_Requester = ''gitter_request''\<rparr>"

definition env_running :: api_env where
  "env_running =
     \<lparr>HostDecommissioned = ''decommissioned'', HostQuarantined = ''quarantined'',
      TaskSucceeded = ''success'', TaskFailed = ''failed'', TaskUndispatched = ''undispatched'',
      PatchVersionRequester = ''patch_request'', APIServerLockTitle = ''apiserver'',
      ErrLockTimeout = ''Timed out acquiring global lock'',
      ExecutablesDir = ''/srv/executables'',
      host_FindOne = Inr (Some host_H),
      store_ClearRunningTask = None,
      store_UpdateRunningTask = (True, None),
      ReadFile = Inr (''r1'' @ [CHR 0x0A]),
      FindTaskQueueForDistro = Inr (Some [''T2'']),
      DispatchTaskForHost = (\<lambda>q h. if q = [] then Inr None else Inr (Some task_T2)),
      ReadJSONInto = Inr \<lparr>Status = ''success''\<rparr>,
      FindOneProjectRef = (Some \<lparr>Identifier = ''proj'', DeactivatePrevious = True\<rparr>, None),
      FindProject = None,
      getGlobalLock = True,
      MarkEnd = None,
      RunTaskFailureTriggers = None,
      SetActiveState = None,
      UpdateExpectedDuration = None\<rparr>"







definition env_queue_error :: api_env where
  "env_queue_error = env_running\<lparr>FindTaskQueueForDistro := Inl ''connection refused''\<rparr>"

definition env_revision_error :: api_env where
  "env_revision_error = env_running\<lparr>ReadFile := Inl ''permission denied''\<rparr>"

definition env_lock_timeout :: api_env where
  "env_lock_timeout = env_running\<lparr>getGlobalLock := False\<rparr>"

definition env_bad_status :: api_env where
  "env_bad_status = env_running\<lparr>ReadJSONInto := Inr \<lparr>Status = ''started''\<rparr>\<rparr>"

text \<open>
  Provisioning a Linux host \<open>H\<close> and a Windows host \<open>W\<close> (which has no secret yet) with every
  step succeeding, and the variations: the agent rebuilt during the transfer, an unreadable
  version file, and a directory step that times out or fails.
\<close>

definition hostInfo_H :: SSHInfo where
  "hostInfo_H = \<lparr>Hostname = ''h.example.com'', Port = ''22''\<rparr>"

definition distro_win :: distro where
  "distro_win = \<lparr>d_Id = ''win'', d_Arch = ''windows_amd64'', d_WorkDir = ''/cygdrive/c/data/mci''\<rparr>"

definition host_W :: host where
  "host_W = \<lparr>h_Id = ''W'', h_Host = ''w.example.com:22'', h_User = ''Administrator'',
             h_Distro = distro_win, h_Status = ''provisioning'', h_RunningTask = [],
             h_AgentRevision = [], h_Secret = []\<rparr>"

definition gw_ok :: gw_env where
  "gw_ok =
     \<lparr>gw_ExecutablesDir = ''/srv/executables'',
      ApiUrl = ''https://ci.example.com/api'',
      ErrTimedOut = ''Function timed out'',
      GetCloudHost = None,
      GetSSHOptions = Inr [''-i'', ''/keys/mci.pem''],
      ParseSSHInfo = (\<lambda>s. Inr hostInfo_H),
      run_makeShellCmd = (None, []),
      stop_makeShellCmd = None,
      distro_FindOne = (\<lambda>i. if i = ''win'' then Inr distro_win else Inr distro_d1),
      ReadFile_preSCP = Inr (''abc123'' @ [CHR 0x0A]),
      run_scpAgentCmd = (None, []),
      stop_scpAgentCmd = None,
      ReadFile_postSCP = Inr (''abc123'' @ [CHR 0x0A]),
      store_CreateSecret = Inr ''fresh'',
      run_startAgentCmd = (None, []),
      stop_startAgentCmd = None,
      store_SetAgentRevision = None\<rparr>"

definition gw_rebuilt :: gw_env where
  "gw_rebuilt = gw_ok\<lparr>ReadFile_postSCP := Inr (''def456'' @ [CHR 0x0A])\<rparr>"

definition gw_unreadable :: gw_env where
  "gw_unreadable = gw_ok\<lparr>ReadFile_preSCP := Inl ''no such file or directory''\<rparr>"

definition gw_mkdir_timeout :: gw_env where
  "gw_mkdir_timeout =
     gw_ok\<lparr>run_makeShellCmd := (Some ''Function timed out'', ''ssh: connection timed out'')\<rparr>"

definition gw_mkdir_fails :: gw_env where
  "gw_mkdir_fails =
     gw_ok\<lparr>run_makeShellCmd := (Some ''exit status 1'', ''mkdir: Permission denied'')\<rparr>"

section \<open>Properties of task completion and dispatch\<close>
























text \<open>
  C5: an error while querying the distro queue should be answered with \<^verbatim>\<open>500\<close>, as the
  errors of the host lookup and of the revision accessor are.  At this input, where looking
  up the queue fails, the handler answers \<^verbatim>\<open>200\<close> with the cause as the message.
\<close>

theorem taskFinished_queue_error_status:
  "host_FindOne env_queue_error = Inr (Some host_H)
   \<and> FindTaskQueueForDistro env_queue_error = Inl ''connection refused''
   \<and> responses (snd (taskFinished env_queue_error task_T1)) =
       [(200, \<lparr>Message = ''Error locating distro queue (d1) for task '' @ [CHR 0x27] @ ''T1''
                           @ [CHR 0x27] @ '': connection refused'',
               RunNext = False, TaskId = [], TaskSecret = []\<rparr>)]
   \<and> StatusInternalServerError = 500
   \<and> ReadFile env_revision_error = Inl ''permission denied''
   \<and> responses (snd (taskFinished env_revision_error task_T1)) =
       [(500, \<lparr>Message = ''error reading agent version file: permission denied'',
               RunNext = False, TaskId = [], TaskSecret = []\<rparr>)]"
  by (simp add: env_queue_error_def env_revision_error_def env_running_def host_H_def
        task_T1_def distro_d1_def taskFinished_def getNextDistroTask_def Wrap_def
        markHostRunningTaskFinished_def ClearRunningTask_def UpdateRunningTask_def
        GetAgentRevision_def TrimSpace_def isSpace_def taskEndResponse0_def
        StatusOK_def StatusInternalServerError_def Let_def)

text \<open>
  C7.  When the global lock is not acquired, the task-end handler locates no host and causes
  no event that changes a task, a host or a queue and no event of the dispatch decision
  (no \<^verbatim>\<open>MarkEnd\<close>, alert trigger, deactivation, bookkeeping or \<^verbatim>\<open>taskFinished\<close>); and when the
  request reaches the acquisition, the events end with the lock attempt and the internal
  error \<^verbatim>\<open>500\<close> carrying \<^verbatim>\<open>ErrLockTimeout\<close>.
\<close>

theorem oldEndTask_lock_timeout:
  assumes timeout: "\<not> getGlobalLock env"
  shows "fst (oldEndTask env t remoteAddr) = None
     \<and> list_all (\<lambda>e. \<not> is_mutation e \<and> \<not> is_dispatch_step e)
          (snd (oldEndTask env t remoteAddr))
     \<and> (ReadJSONInto env = Inr details
          \<and> (Status details = TaskSucceeded env \<or> Status details = TaskFailed env
               \<or> Status details = TaskUndispatched env)
          \<and> FindOneProjectRef env = (Some pref, perr) \<and> FindProject env = None \<longrightarrow>
        snd (oldEndTask env t remoteAddr) =
          [EvReadJSON, EvFindOneProjectRef (t_Project t)] @
          (case perr of Some e \<Rightarrow> [EvLoggedError StatusInternalServerError e] | None \<Rightarrow> []) @
          [EvFindProject (Identifier pref), EvGetGlobalLock remoteAddr (t_Id t),
           EvLoggedError StatusInternalServerError (ErrLockTimeout env)])"
proof (intro conjI impI)
  show "fst (oldEndTask env t remoteAddr) = None"
    using timeout
    by (auto simp: oldEndTask_def Let_def split: sum.splits option.splits prod.splits)
  show "list_all (\<lambda>e. \<not> is_mutation e \<and> \<not> is_dispatch_step e)
          (snd (oldEndTask env t remoteAddr))"
    using timeout
    by (auto simp: oldEndTask_def Let_def split: sum.splits option.splits prod.splits)
next
  assume reached: "ReadJSONInto env = Inr details
          \<and> (Status details = TaskSucceeded env \<or> Status details = TaskFailed env
               \<or> Status details = TaskUndispatched env)
          \<and> FindOneProjectRef env = (Some pref, perr) \<and> FindProject env = None"
  then show "snd (oldEndTask env t remoteAddr) =
          [EvReadJSON, EvFindOneProjectRef (t_Project t)] @
          (case perr of Some e \<Rightarrow> [EvLoggedError StatusInternalServerError e] | None \<Rightarrow> []) @
          [EvFindProject (Identifier pref), EvGetGlobalLock remoteAddr (t_Id t),
           EvLoggedError StatusInternalServerError (ErrLockTimeout env)]"
    using timeout by (auto simp: oldEndTask_def Let_def split: option.splits)
qed

theorem oldEndTask_lock_timeout_witness:
  "\<not> getGlobalLock env_lock_timeout
   \<and> ReadJSONInto env_lock_timeout = Inr \<lparr>Status = ''success''\<rparr>
   \<and> oldEndTask env_lock_timeout task_T1 ''10.0.0.1:4242'' =
       (None, [EvReadJSON, EvFindOneProjectRef ''proj'', EvFindProject ''proj'',
               EvGetGlobalLock ''10.0.0.1:4242'' ''T1'',
               EvLoggedError 500 ''Timed out acquiring global lock''])"
proof -
  have timeout: "\<not> getGlobalLock env_lock_timeout"
    by (simp add: env_lock_timeout_def)
  have reached: "ReadJSONInto env_lock_timeout = Inr \<lparr>Status = ''success''\<rparr>"
    "Status \<lparr>Status = ''success''\<rparr> = TaskSucceeded env_lock_timeout"
    "FindOneProjectRef env_lock_timeout
       = (Some \<lparr>Identifier = ''proj'', DeactivatePrevious = True\<rparr>, None)"
    "FindProject env_lock_timeout = None"
    "ErrLockTimeout env_lock_timeout = ''Timed out acquiring global lock''"
    by (simp_all add: env_lock_timeout_def env_running_def)
  show ?thesis
    using oldEndTask_lock_timeout[OF timeout, of task_T1 "''10.0.0.1:4242''"
        "\<lparr>Status = ''success''\<rparr>" "\<lparr>Identifier = ''proj'', DeactivatePrevious = True\<rparr>" None]
      timeout reached
    by (cases "oldEndTask env_lock_timeout task_T1 ''10.0.0.1:4242''")
       (simp add: StatusInternalServerError_def task_T1_def)
qed

text \<open>
  C8.  A task-end report whose status is none of succeeded, failed and undispatched is
  rejected with \<^verbatim>\<open>400\<close> right after the body was read: the lock is not requested and no
  task, host or queue is touched.
\<close>

theorem oldEndTask_invalid_status:
  assumes parsed: "ReadJSONInto env = Inr details"
    and invalid: "Status details \<noteq> TaskSucceeded env" "Status details \<noteq> TaskFailed env"
      "Status details \<noteq> TaskUndispatched env"
  shows "oldEndTask env t remoteAddr =
           (None, [EvReadJSON,
                   EvLoggedError StatusBadRequest
                     (''Invalid end status '' @ [CHR 0x27] @ Status details @ [CHR 0x27]
                       @ '' for task '' @ t_Id t)])
         \<and> list_all (\<lambda>e. \<not> is_lock_event e \<and> \<not> is_mutation e \<and> \<not> is_dispatch_step e)
              (snd (oldEndTask env t remoteAddr))"
  using assms by (simp add: oldEndTask_def)

theorem oldEndTask_invalid_status_witness:
  "ReadJSONInto env_bad_status = Inr \<lparr>Status = ''started''\<rparr>
   \<and> ''started'' \<noteq> TaskSucceeded env_bad_status \<and> ''started'' \<noteq> TaskFailed env_bad_status
   \<and> ''started'' \<noteq> TaskUndispatched env_bad_status
   \<and> oldEndTask env_bad_status task_T1 ''10.0.0.1:4242'' =
        (None, [EvReadJSON,
                EvLoggedError 400 (''Invalid end status '' @ [CHR 0x27] @ ''started''
                                    @ [CHR 0x27] @ '' for task T1'')])"
proof -
  have parsed: "ReadJSONInto env_bad_status = Inr \<lparr>Status = ''started''\<rparr>"
    by (simp add: env_bad_status_def)
  have invalid: "Status \<lparr>Status = ''started''\<rparr> \<noteq> TaskSucceeded env_bad_status"
    "Status \<lparr>Status = ''started''\<rparr> \<noteq> TaskFailed env_bad_status"
    "Status \<lparr>Status = ''started''\<rparr> \<noteq> TaskUndispatched env_bad_status"
    by (simp_all add: env_bad_status_def env_running_def)
  show ?thesis
    using oldEndTask_invalid_status[OF parsed invalid, of task_T1 "''10.0.0.1:4242''"]
      parsed invalid
    by (simp add: StatusBadRequest_def task_T1_def)
qed

section \<open>Properties of paths\<close>

lemma split_slash_nonempty: "split_slash s \<noteq> []"
  by (induction s) (auto split: list.splits)

lemma split_slash_plain: "CHR ''/'' \<notin> set b \<Longrightarrow> split_slash b = [b]"
  by (induction b) auto

lemma split_slash_snoc:
  "CHR ''/'' \<notin> set b \<Longrightarrow> split_slash (a @ CHR ''/'' # b) = split_slash a @ [b]"
proof (induction a)
  case Nil
  then show ?case by (simp add: split_slash_plain)
next
  case (Cons c a)
  then show ?case
    using split_slash_nonempty[of a] by (cases "split_slash a") auto
qed

lemma clean_step_plain: "plain_name name \<Longrightarrow> clean_step rooted out name = out @ [name]"
  by (simp add: clean_step_def plain_name_def)

lemma join_slash_snoc:
  "join_slash (xs @ [n]) = (if xs = [] then n else join_slash xs @ ''/'' @ n)"
  by (induction xs rule: join_slash.induct) auto

lemma ends_in_self: "ends_in name name"
  by (simp add: ends_in_def)

lemma ends_in_prefix:
  assumes "ends_in s name" and "q = [] \<or> last q = CHR ''/''"
  shows "ends_in (q @ s) name"
proof -
  from assms(1) obtain p where p: "s = p @ name" "p = [] \<or> last p = CHR ''/''"
    by (auto simp: ends_in_def)
  have "q @ s = (q @ p) @ name" using p by simp
  moreover have "q @ p = [] \<or> last (q @ p) = CHR ''/''"
    using p(2) assms(2) by (cases "p = []") auto
  ultimately show ?thesis unfolding ends_in_def by blast
qed

lemma ends_in_join_slash:
  "xs \<noteq> [] \<Longrightarrow> ends_in (last xs) name \<Longrightarrow> ends_in (join_slash xs) name"
proof (induction xs rule: join_slash.induct)
  case 1
  then show ?case by simp
next
  case (2 x)
  then show ?case by simp
next
  case (3 x y ys)
  then have "ends_in (join_slash (y # ys)) name" by simp
  then have "ends_in ((x @ ''/'') @ join_slash (y # ys)) name"
    by (rule ends_in_prefix) simp
  then show ?case by simp
qed

lemma Clean_ends_in:
  assumes plain: "plain_name name" and ends: "ends_in s name"
  shows "ends_in (Clean s) name"
proof -
  from ends obtain p where p: "s = p @ name" "p = [] \<or> last p = CHR ''/''"
    by (auto simp: ends_in_def)
  have noslash: "CHR ''/'' \<notin> set name" and nonempty: "name \<noteq> []"
    using plain by (simp_all add: plain_name_def)
  show ?thesis
  proof (cases "p = []")
    case True
    have "hd name \<noteq> CHR ''/''" using noslash nonempty by (cases name) auto
    then have "Clean s = name"
      using True p(1) nonempty noslash plain
      by (simp add: Clean_def split_slash_plain clean_step_plain)
    then show ?thesis by (simp add: ends_in_self)
  next
    case False
    with p(2) obtain p' where p': "p = p' @ ''/''"
      by (metis append_butlast_last_id)
    let ?rooted = "hd s = CHR ''/''"
    let ?out = "foldl (clean_step ?rooted) [] (split_slash p')"
    have s: "s = p' @ CHR ''/'' # name" using p(1) p' by simp
    have "foldl (clean_step ?rooted) [] (split_slash s) = ?out @ [name]"
      using plain noslash by (simp add: s split_slash_snoc clean_step_plain)
    then have c: "Clean s = (if ?rooted then ''/'' else []) @ join_slash (?out @ [name])"
      using nonempty by (auto simp: Clean_def Let_def s join_slash_snoc)
    have "ends_in (join_slash (?out @ [name])) name"
      by (rule ends_in_join_slash) (simp_all add: ends_in_self)
    then have "ends_in ((if ?rooted then ''/'' else []) @ join_slash (?out @ [name])) name"
      by (rule ends_in_prefix) simp
    then show ?thesis using c by simp
  qed
qed

lemma Join_ends_in:
  assumes plain: "plain_name name" and nonempty: "elem \<noteq> []"
    and ends: "ends_in (last elem) name"
  shows "ends_in (Join elem) name"
proof -
  have last_nonempty: "last elem \<noteq> []"
    using ends plain by (auto simp: ends_in_def plain_name_def)
  obtain ys where elem: "elem = ys @ [last elem]"
    using nonempty by (metis append_butlast_last_id)
  have "dropWhile (\<lambda>e. e = []) elem = dropWhile (\<lambda>e. e = []) ys @ [last elem]"
    using last_nonempty by (subst elem) (simp add: dropWhile_append3)
  then obtain e es where d: "dropWhile (\<lambda>e. e = []) elem = e # es" "last (e # es) = last elem"
    by (cases "dropWhile (\<lambda>e. e = []) ys") auto
  have "ends_in (join_slash (e # es)) name"
    using ends d(2) by (intro ends_in_join_slash) simp_all
  then show ?thesis
    using plain d(1) by (simp add: Join_def Clean_ends_in)
qed

lemma Base_ends_in:
  assumes plain: "plain_name name" and ends: "ends_in s name"
  shows "Base s = name"
proof -
  from ends obtain p where p: "s = p @ name" "p = [] \<or> last p = CHR ''/''"
    by (auto simp: ends_in_def)
  have noslash: "CHR ''/'' \<notin> set name" and nonempty: "name \<noteq> []"
    using plain by (simp_all add: plain_name_def)
  have "hd (rev name) \<noteq> CHR ''/''"
    using noslash nonempty by (metis hd_rev last_in_set)
  then have drop: "dropWhile (\<lambda>c. c = CHR ''/'') (rev name @ rev p) = rev name @ rev p"
    using nonempty by (cases "rev name") auto
  have "takeWhile (\<lambda>c. c \<noteq> CHR ''/'') (rev p) = []"
    using p(2) by (cases "rev p") (auto simp: last_rev[symmetric] simp del: last_rev)
  then have take: "takeWhile (\<lambda>c. c \<noteq> CHR ''/'') (rev name @ rev p) = rev name"
    using noslash by (subst takeWhile_append2) auto
  show ?thesis
    using nonempty p(1) by (simp add: Base_def Let_def drop take)
qed

lemma plain_main: "plain_name ''main''" "plain_name ''main.exe''"
  by (simp_all add: plain_name_def)

lemma Base_Join_main: "Base (Join [dir, ''main'']) = ''main''"
  by (rule Base_ends_in[OF plain_main(1)], rule Join_ends_in[OF plain_main(1)])
     (simp_all add: ends_in_self)

lemma Base_Join_main_exe: "Base (Join [dir, Join [arch, ''main.exe'']]) = ''main.exe''"
proof -
  have "ends_in (Join [arch, ''main.exe'']) ''main.exe''"
    by (rule Join_ends_in[OF plain_main(2)]) (simp_all add: ends_in_self)
  then have "ends_in (Join [dir, Join [arch, ''main.exe'']]) ''main.exe''"
    by (intro Join_ends_in[OF plain_main(2)]) simp_all
  then show ?thesis by (rule Base_ends_in[OF plain_main(2)])
qed

section \<open>Properties of the host agent gateway\<close>

lemma recorded_revisions_append:
  "recorded_revisions (xs @ ys) = recorded_revisions xs @ recorded_revisions ys"
  by (induction xs rule: recorded_revisions.induct) auto

lemma recorded_revisions_log_error: "recorded_revisions (log_error l err) = []"
  by (cases err) (simp_all add: log_error_def)

lemma prepRemoteHost_success:
  assumes "ParseSSHInfo env (h_Host hostObj) = Inr hostInfo"
    and "fst (run_makeShellCmd env) = None"
    and "distro_FindOne env (d_Id (h_Distro hostObj)) = Inr d"
    and "fst (run_scpAgentCmd env) = None"
  shows "prepRemoteHost env hostObj sshOptions =
     (Inr (fst (revision_of (ReadFile_preSCP env))),
      [EvParseSSHInfo (h_Host hostObj), EvLog Info ''Directories command'',
       EvRun (makeShellCmd hostObj hostInfo sshOptions) MakeShellTimeout,
       EvStop (makeShellCmd hostObj hostInfo sshOptions),
       EvDistroFindOne (d_Id (h_Distro hostObj)),
       EvReadFile (versionFile (gw_ExecutablesDir env))] @
      log_error Error (Wrap_opt (snd (revision_of (ReadFile_preSCP env)))
                         ''Error getting pre scp agent revision'') @
      [EvRunScp (scpAgentCmd env hostObj hostInfo sshOptions
                   (Join [d_Arch d, mainName d]))
         SCPTimeout,
       EvStopScp (scpAgentCmd env hostObj hostInfo sshOptions
                   (Join [d_Arch d, mainName d])),
       EvReadFile (versionFile (gw_ExecutablesDir env))] @
      log_error Error (Wrap_opt (snd (revision_of (ReadFile_postSCP env)))
                         ''Error getting post scp agent revision'') @
      (if fst (revision_of (ReadFile_preSCP env)) \<noteq> fst (revision_of (ReadFile_postSCP env))
       then [EvLog Warning
               (''Agent revision was '' @ fst (revision_of (ReadFile_preSCP env))
                @ '' before scp but is now '' @ fst (revision_of (ReadFile_postSCP env))
                @ ''. Using previous revision '' @ fst (revision_of (ReadFile_preSCP env))
                @ '' for host '' @ h_Id hostObj)]
       else []) @
      log_error Notice (stop_scpAgentCmd env) @ log_error Notice (stop_makeShellCmd env))"
  using assms
  by (cases "run_makeShellCmd env"; cases "run_scpAgentCmd env")
     (simp add: prepRemoteHost_def executableSubPath_def Let_def split_beta)

lemma prepRemoteHost_returns:
  assumes "fst (prepRemoteHost env hostObj sshOptions) = Inr r"
  shows "\<exists>hostInfo d. ParseSSHInfo env (h_Host hostObj) = Inr hostInfo
           \<and> fst (run_makeShellCmd env) = None
           \<and> distro_FindOne env (d_Id (h_Distro hostObj)) = Inr d
           \<and> fst (run_scpAgentCmd env) = None
           \<and> r = fst (revision_of (ReadFile_preSCP env))"
  using assms
  by (cases "run_makeShellCmd env"; cases "run_scpAgentCmd env")
     (auto simp: prepRemoteHost_def executableSubPath_def Let_def split_beta
           split: sum.splits option.splits if_splits)

lemma prepRemoteHost_records_nothing:
  "recorded_revisions (snd (prepRemoteHost env hostObj sshOptions)) = []"
  by (cases "run_makeShellCmd env"; cases "run_scpAgentCmd env")
     (auto simp: prepRemoteHost_def executableSubPath_def Let_def split_beta
           recorded_revisions_append recorded_revisions_log_error
           split: sum.splits option.splits if_splits)

lemma startAgentOnRemote_records_nothing:
  "recorded_revisions (snd (startAgentOnRemote env apiURL hostObj sshOptions)) = []"
  by (cases "run_startAgentCmd env")
     (auto simp: startAgentOnRemote_def Let_def recorded_revisions_append
           recorded_revisions_log_error split: sum.splits option.splits if_splits)

lemma StartAgentOnHost_records:
  "recorded_revisions (snd (snd (StartAgentOnHost env hostObj))) = [] \<or>
   (\<exists>sshOptions. GetSSHOptions env = Inr sshOptions \<and>
      (\<exists>r. fst (prepRemoteHost env hostObj sshOptions) = Inr r \<and>
        recorded_revisions (snd (snd (StartAgentOnHost env hostObj))) = [r]))"
  by (auto simp: StartAgentOnHost_def Let_def split_beta CreateSecret_def SetAgentRevision_def
        recorded_revisions_append prepRemoteHost_records_nothing
        startAgentOnRemote_records_nothing
        split: sum.splits option.splits prod.splits)

lemma StartAgentOnHost_success:
  assumes "fst (StartAgentOnHost env hostObj) = None"
  shows "\<exists>sshOptions r. GetSSHOptions env = Inr sshOptions
      \<and> fst (prepRemoteHost env hostObj sshOptions) = Inr r
      \<and> h_AgentRevision (fst (snd (StartAgentOnHost env hostObj))) = r
      \<and> last (snd (snd (StartAgentOnHost env hostObj))) = EvSetAgentRevision (h_Id hostObj) r
      \<and> set (snd (prepRemoteHost env hostObj sshOptions))
           \<subseteq> set (butlast (snd (snd (StartAgentOnHost env hostObj))))"
  using assms
  by (auto simp: StartAgentOnHost_def Let_def split_beta CreateSecret_def SetAgentRevision_def
        butlast_append
        split: sum.splits option.splits prod.splits if_splits)

lemma StartAgentOnHost_all_steps:
  assumes cloud: "GetCloudHost env = None" "GetSSHOptions env = Inr sshOptions"
    and steps: "ParseSSHInfo env (h_Host hostObj) = Inr hostInfo"
      "fst (run_makeShellCmd env) = None"
      "distro_FindOne env (d_Id (h_Distro hostObj)) = Inr d"
      "fst (run_scpAgentCmd env) = None"
    and secret: "h_Secret hostObj = [] \<Longrightarrow> \<exists>s. store_CreateSecret env = Inr s"
    and launch: "fst (run_startAgentCmd env) = None"
    and store: "store_SetAgentRevision env = None"
  shows "fst (StartAgentOnHost env hostObj) = None"
proof (cases "h_Secret hostObj = []")
  case True
  with secret obtain s where s: "store_CreateSecret env = Inr s" by blast
  show ?thesis
    using cloud steps(1) launch store s True
    by (cases "run_startAgentCmd env")
       (simp add: StartAgentOnHost_def prepRemoteHost_success[OF steps] startAgentOnRemote_def
          CreateSecret_def SetAgentRevision_def Let_def)
next
  case False
  show ?thesis
    using cloud steps(1) launch store False
    by (cases "run_startAgentCmd env")
       (simp add: StartAgentOnHost_def prepRemoteHost_success[OF steps] startAgentOnRemote_def
          SetAgentRevision_def Let_def)
qed

text \<open>
  C6.  When the command that prepares the directories times out or fails,
  \<^verbatim>\<open>prepRemoteHost\<close> returns an error that names the directory step and carries the captured
  output, and its events end with stopping that command: the distro is not looked up, the
  version file is not read and no copy is run.
\<close>

theorem prepRemoteHost_mkdir_failure:
  assumes parsed: "ParseSSHInfo env (h_Host hostObj) = Inr hostInfo"
    and failed: "run_makeShellCmd env = (Some err, mkdirOutput)"
  shows "prepRemoteHost env hostObj sshOptions =
           (Inl (if err = ErrTimedOut env
                 then ''creating remote directories timed out: '' @ mkdirOutput
                 else ''error creating directories on remote machine ('' @ mkdirOutput
                        @ ''): '' @ err),
            [EvParseSSHInfo (h_Host hostObj), EvLog Info ''Directories command'',
             EvRun (makeShellCmd hostObj hostInfo sshOptions) MakeShellTimeout,
             EvStop (makeShellCmd hostObj hostInfo sshOptions)] @
            log_error Notice (stop_makeShellCmd env))
         \<and> list_all (\<lambda>e. \<not> is_transfer_event e)
              (snd (prepRemoteHost env hostObj sshOptions))"
proof -
  have "list_all (\<lambda>e. \<not> is_transfer_event e) (log_error Notice (stop_makeShellCmd env))"
    by (cases "stop_makeShellCmd env") (simp_all add: log_error_def)
  then show ?thesis
    using parsed failed by (simp add: prepRemoteHost_def Let_def Wrap_def)
qed

theorem prepRemoteHost_mkdir_failure_witness:
  "ParseSSHInfo gw_mkdir_timeout (h_Host host_H) = Inr hostInfo_H
   \<and> run_makeShellCmd gw_mkdir_timeout = (Some (ErrTimedOut gw_mkdir_timeout),
                                            ''ssh: connection timed out'')
   \<and> fst (prepRemoteHost gw_mkdir_timeout host_H [])
       = Inl ''creating remote directories timed out: ssh: connection timed out''
   \<and> list_all (\<lambda>e. \<not> is_transfer_event e) (snd (prepRemoteHost gw_mkdir_timeout host_H []))
   \<and> run_makeShellCmd gw_mkdir_fails = (Some ''exit status 1'', ''mkdir: Permission denied'')
   \<and> fst (prepRemoteHost gw_mkdir_fails host_H [])
       = Inl (''error creating directories on remote machine (mkdir: Permission denied): ''
              @ ''exit status 1'')
   \<and> list_all (\<lambda>e. \<not> is_transfer_event e) (snd (prepRemoteHost gw_mkdir_fails host_H []))"
proof -
  have parsed: "ParseSSHInfo gw_mkdir_timeout (h_Host host_H) = Inr hostInfo_H"
    "ParseSSHInfo gw_mkdir_fails (h_Host host_H) = Inr hostInfo_H"
    by (simp_all add: gw_mkdir_timeout_def gw_mkdir_fails_def gw_ok_def)
  have timed_out: "run_makeShellCmd gw_mkdir_timeout
                     = (Some ''Function timed out'', ''ssh: connection timed out'')"
    "ErrTimedOut gw_mkdir_timeout = ''Function timed out''"
    by (simp_all add: gw_mkdir_timeout_def gw_ok_def)
  have failed: "run_makeShellCmd gw_mkdir_fails
                     = (Some ''exit status 1'', ''mkdir: Permission denied'')"
    "ErrTimedOut gw_mkdir_fails = ''Function timed out''"
    by (simp_all add: gw_mkdir_fails_def gw_ok_def)
  have stopped: "stop_makeShellCmd gw_mkdir_timeout = None" "stop_makeShellCmd gw_mkdir_fails = None"
    by (simp_all add: gw_mkdir_timeout_def gw_mkdir_fails_def gw_ok_def)
  show ?thesis
    using prepRemoteHost_mkdir_failure[OF parsed(1) timed_out(1), of "[]"]
      prepRemoteHost_mkdir_failure[OF parsed(2) failed(1), of "[]"]
      parsed timed_out failed stopped
    by (simp add: log_error_def)
qed

text \<open>
  C4.  When the revision read before the transfer differs from the one read after it:
  \<^verbatim>\<open>prepRemoteHost\<close>, its steps succeeding, returns the pre-transfer revision and logs the
  warning about the discrepancy; every revision \<^verbatim>\<open>StartAgentOnHost\<close> asks the store to record
  is the pre-transfer one and not the post-transfer one; and when \<^verbatim>\<open>StartAgentOnHost\<close>
  succeeds, the host's deployed agent revision is the pre-transfer revision, recorded by
  the last event, after the warning.
\<close>

theorem pre_transfer_revision_recorded:
  assumes differ: "preSCPAgentRevision env \<noteq> postSCPAgentRevision env"
  shows "(ParseSSHInfo env (h_Host hostObj) = Inr hostInfo \<and> fst (run_makeShellCmd env) = None
            \<and> distro_FindOne env (d_Id (h_Distro hostObj)) = Inr d
            \<and> fst (run_scpAgentCmd env) = None \<longrightarrow>
          fst (prepRemoteHost env hostObj sshOptions) = Inr (preSCPAgentRevision env)
          \<and> revision_warning env hostObj \<in> set (snd (prepRemoteHost env hostObj sshOptions)))
     \<and> list_all (\<lambda>r. r = preSCPAgentRevision env \<and> r \<noteq> postSCPAgentRevision env)
          (recorded_revisions (snd (snd (StartAgentOnHost env hostObj))))
     \<and> (fst (StartAgentOnHost env hostObj) = None \<longrightarrow>
          h_AgentRevision (fst (snd (StartAgentOnHost env hostObj))) = preSCPAgentRevision env
          \<and> last (snd (snd (StartAgentOnHost env hostObj)))
              = EvSetAgentRevision (h_Id hostObj) (preSCPAgentRevision env)
          \<and> revision_warning env hostObj
              \<in> set (butlast (snd (snd (StartAgentOnHost env hostObj)))))"
proof (intro conjI impI)
  assume steps: "ParseSSHInfo env (h_Host hostObj) = Inr hostInfo \<and> fst (run_makeShellCmd env) = None
            \<and> distro_FindOne env (d_Id (h_Distro hostObj)) = Inr d
            \<and> fst (run_scpAgentCmd env) = None"
  then have prep: "prepRemoteHost env hostObj sshOptions = (Inr (fst (revision_of (ReadFile_preSCP env))),
      [EvParseSSHInfo (h_Host hostObj), EvLog Info ''Directories command'',
       EvRun (makeShellCmd hostObj hostInfo sshOptions) MakeShellTimeout,
       EvStop (makeShellCmd hostObj hostInfo sshOptions),
       EvDistroFindOne (d_Id (h_Distro hostObj)),
       EvReadFile (versionFile (gw_ExecutablesDir env))] @
      log_error Error (Wrap_opt (snd (revision_of (ReadFile_preSCP env)))
                         ''Error getting pre scp agent revision'') @
      [EvRunScp (scpAgentCmd env hostObj hostInfo sshOptions (Join [d_Arch d, mainName d]))
         SCPTimeout,
       EvStopScp (scpAgentCmd env hostObj hostInfo sshOptions (Join [d_Arch d, mainName d])),
       EvReadFile (versionFile (gw_ExecutablesDir env))] @
      log_error Error (Wrap_opt (snd (revision_of (ReadFile_postSCP env)))
                         ''Error getting post scp agent revision'') @
      (if fst (revision_of (ReadFile_preSCP env)) \<noteq> fst (revision_of (ReadFile_postSCP env))
       then [EvLog Warning
               (''Agent revision was '' @ fst (revision_of (ReadFile_preSCP env))
                @ '' before scp but is now '' @ fst (revision_of (ReadFile_postSCP env))
                @ ''. Using previous revision '' @ fst (revision_of (ReadFile_preSCP env))
                @ '' for host '' @ h_Id hostObj)]
       else []) @
      log_error Notice (stop_scpAgentCmd env) @ log_error Notice (stop_makeShellCmd env))"
    by (intro prepRemoteHost_success) simp_all
  show "fst (prepRemoteHost env hostObj sshOptions) = Inr (preSCPAgentRevision env)"
    unfolding prep by (simp add: preSCPAgentRevision_def)
  show "revision_warning env hostObj \<in> set (snd (prepRemoteHost env hostObj sshOptions))"
    unfolding prep using differ
    by (simp add: revision_warning_def preSCPAgentRevision_def postSCPAgentRevision_def)
next
  show "list_all (\<lambda>r. r = preSCPAgentRevision env \<and> r \<noteq> postSCPAgentRevision env)
          (recorded_revisions (snd (snd (StartAgentOnHost env hostObj))))"
    using StartAgentOnHost_records[of env hostObj] differ
    by (auto simp: preSCPAgentRevision_def dest: prepRemoteHost_returns)
next
  assume ok: "fst (StartAgentOnHost env hostObj) = None"
  from StartAgentOnHost_success[OF ok]
  obtain sshOptions' r where s: "GetSSHOptions env = Inr sshOptions'"
      "fst (prepRemoteHost env hostObj sshOptions') = Inr r"
      "h_AgentRevision (fst (snd (StartAgentOnHost env hostObj))) = r"
      "last (snd (snd (StartAgentOnHost env hostObj))) = EvSetAgentRevision (h_Id hostObj) r"
      "set (snd (prepRemoteHost env hostObj sshOptions'))
           \<subseteq> set (butlast (snd (snd (StartAgentOnHost env hostObj))))"
    by blast
  from prepRemoteHost_returns[OF s(2)]
  obtain hostInfo' d' where steps: "ParseSSHInfo env (h_Host hostObj) = Inr hostInfo'"
      "fst (run_makeShellCmd env) = None"
      "distro_FindOne env (d_Id (h_Distro hostObj)) = Inr d'"
      "fst (run_scpAgentCmd env) = None"
    and r: "r = fst (revision_of (ReadFile_preSCP env))"
    by blast
  have "revision_warning env hostObj \<in> set (snd (prepRemoteHost env hostObj sshOptions'))"
    unfolding prepRemoteHost_success[OF steps] using differ
    by (simp add: revision_warning_def preSCPAgentRevision_def postSCPAgentRevision_def)
  then show "revision_warning env hostObj
              \<in> set (butlast (snd (snd (StartAgentOnHost env hostObj))))"
    using s(5) by blast
  show "h_AgentRevision (fst (snd (StartAgentOnHost env hostObj))) = preSCPAgentRevision env"
    using s(3) r by (simp add: preSCPAgentRevision_def)
  show "last (snd (snd (StartAgentOnHost env hostObj)))
              = EvSetAgentRevision (h_Id hostObj) (preSCPAgentRevision env)"
    using s(4) r by (simp add: preSCPAgentRevision_def)
qed

theorem pre_transfer_revision_recorded_witness:
  "preSCPAgentRevision gw_rebuilt = ''abc123'' \<and> postSCPAgentRevision gw_rebuilt = ''def456''
   \<and> fst (prepRemoteHost gw_rebuilt host_H [''-i'', ''/keys/mci.pem'']) = Inr ''abc123''
   \<and> fst (StartAgentOnHost gw_rebuilt host_H) = None
   \<and> h_AgentRevision (fst (snd (StartAgentOnHost gw_rebuilt host_H))) = ''abc123''
   \<and> last (snd (snd (StartAgentOnHost gw_rebuilt host_H))) = EvSetAgentRevision ''H'' ''abc123''
   \<and> EvLog Warning (''Agent revision was abc123 before scp but is now def456. ''
                      @ ''Using previous revision abc123 for host H'')
       \<in> set (butlast (snd (snd (StartAgentOnHost gw_rebuilt host_H))))"
proof -
  have pre: "preSCPAgentRevision gw_rebuilt = ''abc123''"
    and post: "postSCPAgentRevision gw_rebuilt = ''def456''"
    by (simp_all add: preSCPAgentRevision_def postSCPAgentRevision_def revision_of_def
          GetAgentRevision_def TrimSpace_def isSpace_def gw_rebuilt_def gw_ok_def)
  have differ: "preSCPAgentRevision gw_rebuilt \<noteq> postSCPAgentRevision gw_rebuilt"
    by (simp add: pre post)
  have steps: "ParseSSHInfo gw_rebuilt (h_Host host_H) = Inr hostInfo_H"
    "fst (run_makeShellCmd gw_rebuilt) = None"
    "distro_FindOne gw_rebuilt (d_Id (h_Distro host_H)) = Inr distro_d1"
    "fst (run_scpAgentCmd gw_rebuilt) = None"
    by (simp_all add: gw_rebuilt_def gw_ok_def host_H_def distro_d1_def)
  have ok: "fst (StartAgentOnHost gw_rebuilt host_H) = None"
    by (rule StartAgentOnHost_all_steps[OF _ _ steps])
       (simp_all add: gw_rebuilt_def gw_ok_def host_H_def)
  show ?thesis
    using pre_transfer_revision_recorded[OF differ, of host_H hostInfo_H distro_d1
        "[''-i'', ''/keys/mci.pem'']"] steps ok pre post
    by (simp add: revision_warning_def host_H_def)
qed

text \<open>
  C9.  When the version file cannot be read before the transfer: \<^verbatim>\<open>prepRemoteHost\<close>, its
  other steps succeeding, logs the error, still runs the copy and returns the empty
  revision; every revision \<^verbatim>\<open>StartAgentOnHost\<close> asks the store to record is empty; and when
  \<^verbatim>\<open>StartAgentOnHost\<close> succeeds, the host's deployed agent revision is the empty string.
\<close>

theorem unreadable_revision_recorded_empty:
  assumes unreadable: "ReadFile_preSCP env = Inl err"
  shows "(ParseSSHInfo env (h_Host hostObj) = Inr hostInfo \<and> fst (run_makeShellCmd env) = None
            \<and> distro_FindOne env (d_Id (h_Distro hostObj)) = Inr d
            \<and> fst (run_scpAgentCmd env) = None \<longrightarrow>
          fst (prepRemoteHost env hostObj sshOptions) = Inr []
          \<and> EvLog Error (''Error getting pre scp agent revision: ''
                          @ ''error reading agent version file: '' @ err)
              \<in> set (snd (prepRemoteHost env hostObj sshOptions))
          \<and> EvRunScp (scpAgentCmd env hostObj hostInfo sshOptions (Join [d_Arch d, mainName d]))
               SCPTimeout
              \<in> set (snd (prepRemoteHost env hostObj sshOptions)))
     \<and> list_all (\<lambda>r. r = []) (recorded_revisions (snd (snd (StartAgentOnHost env hostObj))))
     \<and> (fst (StartAgentOnHost env hostObj) = None \<longrightarrow>
          h_AgentRevision (fst (snd (StartAgentOnHost env hostObj))) = []
          \<and> last (snd (snd (StartAgentOnHost env hostObj)))
              = EvSetAgentRevision (h_Id hostObj) [])"
proof -
  have pre: "revision_of (ReadFile_preSCP env)
               = ([], Some (Wrap err ''error reading agent version file''))"
    using unreadable by (simp add: revision_of_def GetAgentRevision_def)
  show ?thesis
  proof (intro conjI impI)
    assume steps: "ParseSSHInfo env (h_Host hostObj) = Inr hostInfo
            \<and> fst (run_makeShellCmd env) = None
            \<and> distro_FindOne env (d_Id (h_Distro hostObj)) = Inr d
            \<and> fst (run_scpAgentCmd env) = None"
    then have prep: "prepRemoteHost env hostObj sshOptions =
     (Inr (fst (revision_of (ReadFile_preSCP env))),
      [EvParseSSHInfo (h_Host hostObj), EvLog Info ''Directories command'',
       EvRun (makeShellCmd hostObj hostInfo sshOptions) MakeShellTimeout,
       EvStop (makeShellCmd hostObj hostInfo sshOptions),
       EvDistroFindOne (d_Id (h_Distro hostObj)),
       EvReadFile (versionFile (gw_ExecutablesDir env))] @
      log_error Error (Wrap_opt (snd (revision_of (ReadFile_preSCP env)))
                         ''Error getting pre scp agent revision'') @
      [EvRunScp (scpAgentCmd env hostObj hostInfo sshOptions (Join [d_Arch d, mainName d]))
         SCPTimeout,
       EvStopScp (scpAgentCmd env hostObj hostInfo sshOptions (Join [d_Arch d, mainName d])),
       EvReadFile (versionFile (gw_ExecutablesDir env))] @
      log_error Error (Wrap_opt (snd (revision_of (ReadFile_postSCP env)))
                         ''Error getting post scp agent revision'') @
      (if fst (revision_of (ReadFile_preSCP env)) \<noteq> fst (revision_of (ReadFile_postSCP env))
       then [EvLog Warning
               (''Agent revision was '' @ fst (revision_of (ReadFile_preSCP env))
                @ '' before scp but is now '' @ fst (revision_of (ReadFile_postSCP env))
                @ ''. Using previous revision '' @ fst (revision_of (ReadFile_preSCP env))
                @ '' for host '' @ h_Id hostObj)]
       else []) @
      log_error Notice (stop_scpAgentCmd env) @ log_error Notice (stop_makeShellCmd env))"
      by (intro prepRemoteHost_success) simp_all
    show "fst (prepRemoteHost env hostObj sshOptions) = Inr []"
      unfolding prep by (simp add: pre)
    show "EvLog Error (''Error getting pre scp agent revision: ''
                          @ ''error reading agent version file: '' @ err)
              \<in> set (snd (prepRemoteHost env hostObj sshOptions))"
      unfolding prep by (simp add: pre log_error_def Wrap_opt_def Wrap_def)
    show "EvRunScp (scpAgentCmd env hostObj hostInfo sshOptions (Join [d_Arch d, mainName d]))
               SCPTimeout
              \<in> set (snd (prepRemoteHost env hostObj sshOptions))"
      unfolding prep by simp
  next
    show "list_all (\<lambda>r. r = []) (recorded_revisions (snd (snd (StartAgentOnHost env hostObj))))"
      using StartAgentOnHost_records[of env hostObj] pre
      by (auto dest: prepRemoteHost_returns)
  next
    assume ok: "fst (StartAgentOnHost env hostObj) = None"
    from StartAgentOnHost_success[OF ok]
    obtain sshOptions' r where s: "fst (prepRemoteHost env hostObj sshOptions') = Inr r"
      "h_AgentRevision (fst (snd (StartAgentOnHost env hostObj))) = r"
      "last (snd (snd (StartAgentOnHost env hostObj))) = EvSetAgentRevision (h_Id hostObj) r"
      by blast
    have r: "r = []" using prepRemoteHost_returns[OF s(1)] pre by auto
    show "h_AgentRevision (fst (snd (StartAgentOnHost env hostObj))) = []"
      using s(2) r by simp
    show "last (snd (snd (StartAgentOnHost env hostObj))) = EvSetAgentRevision (h_Id hostObj) []"
      using s(3) r by simp
  qed
qed

theorem unreadable_revision_recorded_empty_witness:
  "ReadFile_preSCP gw_unreadable = Inl ''no such file or directory''
   \<and> fst (prepRemoteHost gw_unreadable host_W [''-i'', ''/keys/mci.pem'']) = Inr []
   \<and> EvLog Error (''Error getting pre scp agent revision: error reading agent version file: ''
                    @ ''no such file or directory'')
       \<in> set (snd (prepRemoteHost gw_unreadable host_W [''-i'', ''/keys/mci.pem'']))
   \<and> fst (StartAgentOnHost gw_unreadable host_W) = None
   \<and> h_AgentRevision (fst (snd (StartAgentOnHost gw_unreadable host_W))) = []
   \<and> last (snd (snd (StartAgentOnHost gw_unreadable host_W))) = EvSetAgentRevision ''W'' []"
proof -
  have unreadable: "ReadFile_preSCP gw_unreadable = Inl ''no such file or directory''"
    by (simp add: gw_unreadable_def)
  have steps: "ParseSSHInfo gw_unreadable (h_Host host_W) = Inr hostInfo_H"
    "fst (run_makeShellCmd gw_unreadable) = None"
    "distro_FindOne gw_unreadable (d_Id (h_Distro host_W)) = Inr distro_win"
    "fst (run_scpAgentCmd gw_unreadable) = None"
    by (simp_all add: gw_unreadable_def gw_ok_def host_W_def distro_win_def)
  have ok: "fst (StartAgentOnHost gw_unreadable host_W) = None"
    by (rule StartAgentOnHost_all_steps[OF _ _ steps])
       (simp_all add: gw_unreadable_def gw_ok_def host_W_def)
  show ?thesis
    using unreadable_revision_recorded_empty[OF unreadable, of host_W hostInfo_H distro_win
        "[''-i'', ''/keys/mci.pem'']"] steps ok unreadable
    by (simp add: host_W_def)
qed

text \<open>
  C10.  For a distro whose architecture begins with \<^verbatim>\<open>windows\<close>, the transfer copies a file
  named \<^verbatim>\<open>main.exe\<close> into the working directory, while the launch command starts with the
  working directory joined with \<^verbatim>\<open>main\<close>, whatever the architecture: the file name of the
  launched path is \<^verbatim>\<open>main\<close>, and the launched path is not the path of \<^verbatim>\<open>main.exe\<close> in the
  working directory.
\<close>

theorem launch_path_not_transferred_binary:
  assumes found: "distro_FindOne env (d_Id (h_Distro hostObj)) = Inr d"
    and windows: "HasPrefix (d_Arch d) ''windows''"
  shows "fst (executableSubPath env (d_Id (h_Distro hostObj))) = Inr (Join [d_Arch d, ''main.exe''])
     \<and> Base (Source (scpAgentCmd env hostObj hostInfo sshOptions (Join [d_Arch d, ''main.exe''])))
         = ''main.exe''
     \<and> Dest (scpAgentCmd env hostObj hostInfo sshOptions (Join [d_Arch d, ''main.exe'']))
         = d_WorkDir (h_Distro hostObj)
     \<and> (ParseSSHInfo env (h_Host hostObj) = Inr hostInfo \<and> fst (run_makeShellCmd env) = None \<longrightarrow>
          EvRunScp (scpAgentCmd env hostObj hostInfo sshOptions (Join [d_Arch d, ''main.exe'']))
            SCPTimeout \<in> set (snd (prepRemoteHost env hostObj sshOptions))
          \<and> EvRun (startAgentCmd apiURL hostObj hostInfo sshOptions) StartAgentTimeout
              \<in> set (snd (startAgentOnRemote env apiURL hostObj sshOptions)))
     \<and> HasPrefix (CmdString (startAgentCmd apiURL hostObj hostInfo sshOptions))
         (pathToExecutable hostObj @ '' -api_server '')
     \<and> pathToExecutable hostObj = Join [d_WorkDir (h_Distro hostObj), ''main'']
     \<and> Base (pathToExecutable hostObj) = ''main''
     \<and> pathToExecutable hostObj \<noteq> Join [d_WorkDir (h_Distro hostObj), ''main.exe'']
     \<and> startAgentOnRemote env apiURL (hostObj\<lparr>h_Distro := (h_Distro hostObj)\<lparr>d_Arch := arch\<rparr>\<rparr>)
           sshOptions
         = startAgentOnRemote env apiURL hostObj sshOptions"
proof (intro conjI impI)
  show "fst (executableSubPath env (d_Id (h_Distro hostObj))) = Inr (Join [d_Arch d, ''main.exe''])"
    using found windows by (simp add: executableSubPath_def mainName_def)
  show "Base (Source (scpAgentCmd env hostObj hostInfo sshOptions (Join [d_Arch d, ''main.exe''])))
         = ''main.exe''"
    by (simp add: scpAgentCmd_def Base_Join_main_exe)
  show "Dest (scpAgentCmd env hostObj hostInfo sshOptions (Join [d_Arch d, ''main.exe'']))
         = d_WorkDir (h_Distro hostObj)"
    by (simp add: scpAgentCmd_def)
  show "HasPrefix (CmdString (startAgentCmd apiURL hostObj hostInfo sshOptions))
         (pathToExecutable hostObj @ '' -api_server '')"
    by (simp add: startAgentCmd_def remoteCmd_def HasPrefix_def)
  show "pathToExecutable hostObj = Join [d_WorkDir (h_Distro hostObj), ''main'']"
    by (simp add: pathToExecutable_def)
  show "Base (pathToExecutable hostObj) = ''main''"
    by (simp add: pathToExecutable_def Base_Join_main)
  have "Base (Join [d_WorkDir (h_Distro hostObj), ''main.exe'']) = ''main.exe''"
    by (rule Base_ends_in[OF plain_main(2)], rule Join_ends_in[OF plain_main(2)])
       (simp_all add: ends_in_self)
  moreover have "Base (pathToExecutable hostObj) = ''main''"
    by (simp add: pathToExecutable_def Base_Join_main)
  ultimately show "pathToExecutable hostObj \<noteq> Join [d_WorkDir (h_Distro hostObj), ''main.exe'']"
    by auto
  let ?h = "hostObj\<lparr>h_Distro := (h_Distro hostObj)\<lparr>d_Arch := arch\<rparr>\<rparr>"
  have same: "remoteCmd apiURL ?h = remoteCmd apiURL hostObj" "h_Host ?h = h_Host hostObj"
    "h_Id ?h = h_Id hostObj"
    "\<And>hostInfo. startAgentCmd apiURL ?h hostInfo sshOptions
                  = startAgentCmd apiURL hostObj hostInfo sshOptions"
    by (simp_all add: startAgentCmd_def remoteCmd_def pathToExecutable_def)
  show "startAgentOnRemote env apiURL ?h sshOptions
         = startAgentOnRemote env apiURL hostObj sshOptions"
    unfolding startAgentOnRemote_def same by (rule refl)
next
  assume steps: "ParseSSHInfo env (h_Host hostObj) = Inr hostInfo \<and> fst (run_makeShellCmd env) = None"
  show "EvRunScp (scpAgentCmd env hostObj hostInfo sshOptions (Join [d_Arch d, ''main.exe'']))
            SCPTimeout \<in> set (snd (prepRemoteHost env hostObj sshOptions))"
    using steps found windows
    by (cases "run_makeShellCmd env"; cases "run_scpAgentCmd env")
       (auto simp: prepRemoteHost_def executableSubPath_def mainName_def Let_def split_beta
             split: option.splits)
  show "EvRun (startAgentCmd apiURL hostObj hostInfo sshOptions) StartAgentTimeout
              \<in> set (snd (startAgentOnRemote env apiURL hostObj sshOptions))"
    using steps
    by (cases "run_startAgentCmd env")
       (auto simp: startAgentOnRemote_def Let_def split: option.splits)
qed

theorem launch_path_not_transferred_binary_witness:
  "distro_FindOne gw_ok (d_Id (h_Distro host_W)) = Inr distro_win
   \<and> HasPrefix (d_Arch distro_win) ''windows''
   \<and> fst (executableSubPath gw_ok (d_Id (h_Distro host_W)))
       = Inr (Join [''windows_amd64'', ''main.exe''])
   \<and> EvRunScp (scpAgentCmd gw_ok host_W hostInfo_H [] (Join [''windows_amd64'', ''main.exe'']))
        SCPTimeout \<in> set (snd (prepRemoteHost gw_ok host_W []))
   \<and> Base (Source (scpAgentCmd gw_ok host_W hostInfo_H [] (Join [''windows_amd64'', ''main.exe''])))
       = ''main.exe''
   \<and> pathToExecutable host_W = Join [''/cygdrive/c/data/mci'', ''main'']
   \<and> Base (pathToExecutable host_W) = ''main''
   \<and> Join [''windows_amd64'', ''main.exe''] = ''windows_amd64/main.exe''
   \<and> Join [''/cygdrive/c/data/mci'', ''main''] = ''/cygdrive/c/data/mci/main''"
proof -
  have found: "distro_FindOne gw_ok (d_Id (h_Distro host_W)) = Inr distro_win"
    by (simp add: gw_ok_def host_W_def distro_win_def)
  have windows: "HasPrefix (d_Arch distro_win) ''windows''"
    by (simp add: HasPrefix_def distro_win_def)
  have steps: "ParseSSHInfo gw_ok (h_Host host_W) = Inr hostInfo_H"
    "fst (run_makeShellCmd gw_ok) = None"
    by (simp_all add: gw_ok_def)
  have fields: "d_Arch distro_win = ''windows_amd64''"
    "d_WorkDir (h_Distro host_W) = ''/cygdrive/c/data/mci''"
    by (simp_all add: host_W_def distro_win_def)
  have paths: "Join [''windows_amd64'', ''main.exe''] = ''windows_amd64/main.exe''"
    "Join [''/cygdrive/c/data/mci'', ''main''] = ''/cygdrive/c/data/mci/main''"
    by (simp_all add: Join_def Clean_def clean_step_def Let_def)
  have launched: "fst (executableSubPath gw_ok (d_Id (h_Distro host_W)))
       = Inr (Join [''windows_amd64'', ''main.exe''])
   \<and> EvRunScp (scpAgentCmd gw_ok host_W hostInfo_H [] (Join [''windows_amd64'', ''main.exe'']))
        SCPTimeout \<in> set (snd (prepRemoteHost gw_ok host_W []))
   \<and> Base (Source (scpAgentCmd gw_ok host_W hostInfo_H [] (Join [''windows_amd64'', ''main.exe''])))
       = ''main.exe''
   \<and> pathToExecutable host_W = Join [''/cygdrive/c/data/mci'', ''main'']
   \<and> Base (pathToExecutable host_W) = ''main''"
    using launch_path_not_transferred_binary[OF found windows,
        where hostInfo = hostInfo_H and sshOptions = "[]" and apiURL = "ApiUrl gw_ok"] steps
    unfolding fields by blast
  show ?thesis
    using found windows launched paths by (intro conjI) blast+
qed

end
